theory Spec2Isabelle
  imports Complex_Main "HOL-Library.Sublist"
begin

section \<open>The product API of app.py\<close>

text \<open>
  The program is one Flask module: a table of products behind nine routes, a fixed
  login, and three error handlers. Each view is a function from the store and the
  request to a response and the store after the request. A view that raises leaves the
  store as it was (a failed commit writes nothing, and the session is discarded with
  the request) and the application's error handlers turn the exception into the response.
\<close>

subsection \<open>JSON values as Python sees them\<close>

text \<open>
  \<open>request.json\<close> is the parsed body: \<open>None\<close>, a bool, an int, a float, a str, a list
  or a dict. A dict is an association list read with \<open>map_of\<close> (the first binding of a
  key is the one the dict holds). A float is the real number it denotes (JSON has no
  NaN and no infinity). \<open>JNull\<close> also stands for the body of a request that carries no
  JSON at all, for which \<open>request.json\<close> is \<open>None\<close>.
\<close>

datatype json =
    JNull
  | JBool bool
  | JInt int
  | JFloat real
  | JStr string
  | JArr "json list"
  | JObj "(string \<times> json) list"

text \<open>The exceptions the views can raise.\<close>

datatype exn =
    NotFound
  | AttributeError
  | KeyError
  | TypeError
  | StatementError
  | IntegrityError
  | OverflowError
  | NoAuthorizationError
  | InvalidSignatureError

type_synonym 'a result = "exn + 'a"

definition and_then :: "'a result \<Rightarrow> ('a \<Rightarrow> 'b result) \<Rightarrow> 'b result" where
  "and_then r f = (case r of Inl e \<Rightarrow> Inl e | Inr x \<Rightarrow> f x)"

text \<open>Python's truth value of an object: what \<open>not x\<close> negates.\<close>

fun truthy :: "json \<Rightarrow> bool" where
  "truthy JNull = False"
| "truthy (JBool b) = b"
| "truthy (JInt n) = (n \<noteq> 0)"
| "truthy (JFloat x) = (x \<noteq> 0)"
| "truthy (JStr s) = (s \<noteq> [])"
| "truthy (JArr xs) = (xs \<noteq> [])"
| "truthy (JObj kvs) = (kvs \<noteq> [])"

text \<open>
  \<open>data.get(key, default)\<close>: only a dict has the method, on every other object the
  attribute lookup raises. \<open>data.get(key)\<close> is \<open>py_get data key JNull\<close>.
\<close>

fun py_get :: "json \<Rightarrow> string \<Rightarrow> json \<Rightarrow> json result" where
  "py_get (JObj kvs) k d = Inr (case map_of kvs k of None \<Rightarrow> d | Some v \<Rightarrow> v)"
| "py_get _ k d = Inl AttributeError"

text \<open>
  \<open>data[key]\<close> with a str key: a dict raises KeyError when the key is missing; None,
  numbers, strings and lists raise TypeError.
\<close>

fun py_getitem :: "json \<Rightarrow> string \<Rightarrow> json result" where
  "py_getitem (JObj kvs) k = (case map_of kvs k of None \<Rightarrow> Inl KeyError | Some v \<Rightarrow> Inr v)"
| "py_getitem _ k = Inl TypeError"

text \<open>
  The numbers of Python, for \<open><\<close> and \<open>-\<close> (a bool is an int). Only the sell view
  compares and subtracts, and on numbers; on other operands the model raises TypeError.
\<close>

fun py_number :: "json \<Rightarrow> real option" where
  "py_number (JBool b) = Some (if b then 1 else 0)"
| "py_number (JInt n) = Some (of_int n)"
| "py_number (JFloat x) = Some x"
| "py_number _ = None"

definition py_lt :: "json \<Rightarrow> json \<Rightarrow> bool result" where
  "py_lt a b =
     (case (py_number a, py_number b) of
        (Some x, Some y) \<Rightarrow> Inr (x < y)
      | _ \<Rightarrow> Inl TypeError)"

fun py_sub :: "json \<Rightarrow> json \<Rightarrow> json result" where
  "py_sub (JInt a) (JInt b) = Inr (JInt (a - b))"
| "py_sub a b =
     (case (py_number a, py_number b) of
        (Some x, Some y) \<Rightarrow> Inr (JFloat (x - y))
      | _ \<Rightarrow> Inl TypeError)"

subsection \<open>Tokens\<close>

text \<open>
  A token is kept symbolic: the key it was signed with and the identity it embeds.
  Verification accepts exactly the tokens signed with the application's key. The
  expiry of a token is not modelled.
\<close>

datatype jwt = Jwt (signing_key: string) (identity: json)

definition JWT_SECRET_KEY :: string where
  "JWT_SECRET_KEY = ''your_jwt_secret_key''"

definition create_access_token :: "json \<Rightarrow> jwt" where
  "create_access_token ident = Jwt JWT_SECRET_KEY ident"

text \<open>\<open>@jwt_required()\<close> followed by \<open>get_jwt_identity()\<close>, on the bearer token of the request.\<close>

fun jwt_required :: "jwt option \<Rightarrow> json result" where
  "jwt_required None = Inl NoAuthorizationError"
| "jwt_required (Some (Jwt k ident)) =
     (if k = JWT_SECRET_KEY then Inr ident else Inl InvalidSignatureError)"

subsection \<open>Responses and error handlers\<close>

datatype payload = Json json | Access_token jwt

record response =
  status :: nat
  body :: payload

definition jsonify :: "json \<Rightarrow> nat \<Rightarrow> response" where
  "jsonify v code = \<lparr>status = code, body = Json v\<rparr>"

definition error_body :: "string \<Rightarrow> json" where
  "error_body msg = JObj [(''error'', JStr msg)]"

definition handle_exception :: "exn \<Rightarrow> response" where
  "handle_exception e = jsonify (error_body ''An error occurred'') 500"

definition not_found :: response where
  "not_found = jsonify (error_body ''Resource not found'') 404"

text \<open>
  Flask picks the handler registered for the status code of an HTTP exception, and
  otherwise the handler of the nearest class of the exception: 404 goes to
  \<open>not_found\<close>, the token errors to the handlers that \<open>JWTManager\<close> registers, and
  every other exception to \<open>handle_exception\<close>.
\<close>

fun handle_user_exception :: "exn \<Rightarrow> response" where
  "handle_user_exception NotFound = not_found"
| "handle_user_exception NoAuthorizationError =
     jsonify (JObj [(''msg'', JStr ''Missing Authorization Header'')]) 401"
| "handle_user_exception InvalidSignatureError =
     jsonify (JObj [(''msg'', JStr ''Signature verification failed'')]) 422"
| "handle_user_exception e = handle_exception e"

subsection \<open>The Product model and its table\<close>

text \<open>
  A row of the table has the four columns the class declares. The table is the list
  of its rows in rowid order, which is the order a query without ORDER BY reads them in.
\<close>

record product =
  ident :: int
  barcode :: string
  name :: string
  price :: real

type_synonym store = "product list"

definition to_dict :: "product \<Rightarrow> json" where
  "to_dict p =
     JObj [(''id'', JInt (ident p)),
           (''barcode'', JStr (barcode p)),
           (''name'', JStr (name p)),
           (''price'', JFloat (price p))]"

text \<open>
  Reading a data attribute of a Product instance: the columns are its data
  attributes, any other name raises AttributeError.
\<close>

definition product_getattr :: "product \<Rightarrow> string \<Rightarrow> json result" where
  "product_getattr p a =
     (if a = ''id'' then Inr (JInt (ident p))
      else if a = ''barcode'' then Inr (JStr (barcode p))
      else if a = ''name'' then Inr (JStr (name p))
      else if a = ''price'' then Inr (JFloat (price p))
      else Inl AttributeError)"

text \<open>
  What the database does with a Python object that is not of the column's type (an
  int sent to a String column, a str sent to a Float column) is decided by SQLAlchemy
  and SQLite, not by app.py. The model takes it as a parameter: the converted value,
  or \<open>None\<close> when the statement fails. Every theorem holds for every such driver.
\<close>

record driver =
  as_text :: "json \<Rightarrow> string option"
  as_real :: "json \<Rightarrow> real option"

text \<open>
  The value bound for a String column and for a Float column; \<open>None\<close> is NULL. An int
  of at most 53 bits is the same number as a float; a larger one is left to the driver.
\<close>

fun bind_String :: "driver \<Rightarrow> json \<Rightarrow> string option result" where
  "bind_String drv JNull = Inr None"
| "bind_String drv (JStr s) = Inr (Some s)"
| "bind_String drv v =
     (case as_text drv v of None \<Rightarrow> Inl StatementError | Some s \<Rightarrow> Inr (Some s))"

fun bind_Float :: "driver \<Rightarrow> json \<Rightarrow> real option result" where
  "bind_Float drv JNull = Inr None"
| "bind_Float drv (JFloat x) = Inr (Some x)"
| "bind_Float drv (JInt n) =
     (if \<bar>n\<bar> \<le> 2 ^ 53 then Inr (Some (of_int n))
      else case as_real drv (JInt n) of None \<Rightarrow> Inl StatementError | Some x \<Rightarrow> Inr (Some x))"
| "bind_Float drv v =
     (case as_real drv v of None \<Rightarrow> Inl StatementError | Some x \<Rightarrow> Inr (Some x))"

text \<open>\<open>nullable=False\<close>: a NULL in the column fails the statement.\<close>

fun not_null :: "'a option \<Rightarrow> 'a result" where
  "not_null None = Inl IntegrityError"
| "not_null (Some x) = Inr x"

text \<open>The rowid SQLite gives a new row: one more than the largest in the table.\<close>

definition next_id :: "store \<Rightarrow> int" where
  "next_id st = foldr max (map ident st) 0 + 1"

text \<open>
  \<open>db.session.add(product); db.session.commit()\<close> for a product built from the three
  objects: the INSERT fails on a NULL and on a barcode already in the table
  (\<open>unique=True\<close>). It returns the row as the table now holds it, and the table.
\<close>

definition add_commit :: "driver \<Rightarrow> store \<Rightarrow> json \<Rightarrow> json \<Rightarrow> json \<Rightarrow> (product \<times> store) result" where
  "add_commit drv st b n p =
     and_then (bind_String drv b) (\<lambda>b'.
     and_then (bind_String drv n) (\<lambda>n'.
     and_then (bind_Float drv p) (\<lambda>p'.
     and_then (not_null b') (\<lambda>bc.
     and_then (not_null n') (\<lambda>nm.
     and_then (not_null p') (\<lambda>pr.
       if bc \<in> set (map barcode st) then Inl IntegrityError
       else
         let row = \<lparr>ident = next_id st, barcode = bc, name = nm, price = pr\<rparr>
         in Inr (row, st @ [row])))))))"

text \<open>
  \<open>db.session.commit()\<close> after \<open>name\<close> and \<open>price\<close> of a loaded product were
  assigned: the UPDATE writes these two columns of the row with its primary key. It
  returns the product as the table now holds it, and the table.
\<close>

definition update_commit ::
    "driver \<Rightarrow> store \<Rightarrow> product \<Rightarrow> json \<Rightarrow> json \<Rightarrow> (product \<times> store) result" where
  "update_commit drv st product n p =
     and_then (bind_String drv n) (\<lambda>n'.
     and_then (bind_Float drv p) (\<lambda>p'.
     and_then (not_null n') (\<lambda>nm.
     and_then (not_null p') (\<lambda>pr.
       Inr (product\<lparr>name := nm, price := pr\<rparr>,
            map (\<lambda>r. if ident r = ident product then r\<lparr>name := nm, price := pr\<rparr> else r) st)))))"

text \<open>
  An int that a query binds as a parameter has to fit SQLite's 64-bit integer; the
  driver raises OverflowError on any other.
\<close>

definition int64 :: "int \<Rightarrow> bool" where
  "int64 n \<longleftrightarrow> - (2 ^ 63) \<le> n \<and> n < 2 ^ 63"

definition sqlite_int :: "int \<Rightarrow> int result" where
  "sqlite_int n = (if int64 n then Inr n else Inl OverflowError)"

text \<open>\<open>Product.query.get_or_404(id)\<close>: the row with that primary key, or abort(404).\<close>

definition get_or_404 :: "store \<Rightarrow> int \<Rightarrow> product result" where
  "get_or_404 st i =
     and_then (sqlite_int i) (\<lambda>k.
       case find (\<lambda>r. ident r = k) st of None \<Rightarrow> Inl NotFound | Some r \<Rightarrow> Inr r)"

subsection \<open>Substring filters\<close>

text \<open>
  \<open>column.contains(query)\<close> is the SQL \<open>column LIKE '%' || query || '%'\<close>, with no
  escape character. SQLite's LIKE: \<open>%\<close> in the pattern stands for any run of
  characters, \<open>_\<close> for any one character, and any other character for itself, the
  ASCII letters without regard to case.
\<close>

definition lower :: "char \<Rightarrow> char" where
  "lower c =
     (let n = (of_char c :: nat) in if 65 \<le> n \<and> n \<le> 90 then char_of (n + 32) else c)"

fun like :: "string \<Rightarrow> string \<Rightarrow> bool" where
  "like [] [] = True"
| "like [] (c # cs) = False"
| "like (p # ps) [] = (p = CHR ''%'' \<and> like ps [])"
| "like (p # ps) (c # cs) =
     (if p = CHR ''%'' then like ps (c # cs) \<or> like (p # ps) cs
      else (p = CHR ''_'' \<or> lower p = lower c) \<and> like ps cs)"

text \<open>An absent query is \<open>None\<close>, bound as NULL: the LIKE is NULL and selects no row.\<close>

fun contains :: "string \<Rightarrow> string option \<Rightarrow> bool" where
  "contains col None = False"
| "contains col (Some q) = like (CHR ''%'' # q @ [CHR ''%'']) col"

subsection \<open>Pagination\<close>

text \<open>
  \<open>request.args.get(key, default, type=int)\<close> gives the default when the parameter is
  absent and when \<open>int\<close> rejects its text. The query parameters of the list route are
  given by what \<open>int\<close> makes of them: \<open>None\<close> in these two cases.
\<close>

type_synonym args = "string \<Rightarrow> int option"

definition args_get :: "args \<Rightarrow> string \<Rightarrow> int \<Rightarrow> int" where
  "args_get a k d = (case a k of None \<Rightarrow> d | Some v \<Rightarrow> v)"

text \<open>
  \<open>Product.query.paginate(page, per_page, error_out=False)\<close> of Flask-SQLAlchemy 2 (the
  version that takes these arguments by position). Without error_out a page below 1
  becomes 1 and a negative per_page becomes 20; the items are the rows after
  \<open>LIMIT per_page OFFSET (page - 1) * per_page\<close>, both bound as parameters; \<open>pages\<close>
  is \<open>int(ceil(total / float(per_page)))\<close>, and 0 when per_page is 0.
\<close>

record pagination =
  items :: "product list"
  total :: int
  page :: int
  per_page :: int

definition paginate :: "store \<Rightarrow> int \<Rightarrow> int \<Rightarrow> pagination result" where
  "paginate st pg pp =
     (let pg' = (if pg < 1 then 1 else pg);
          pp' = (if pp < 0 then 20 else pp)
      in and_then (sqlite_int pp') (\<lambda>limit.
         and_then (sqlite_int ((pg' - 1) * pp')) (\<lambda>offset.
           Inr \<lparr>items = take (nat limit) (drop (nat offset) st),
                total = int (length st),
                page = pg',
                per_page = pp'\<rparr>)))"

definition pages :: "pagination \<Rightarrow> int" where
  "pages pgn =
     (if per_page pgn = 0 then 0
      else \<lceil>real_of_int (total pgn) / real_of_int (per_page pgn)\<rceil>)"

subsection \<open>The views\<close>

text \<open>\<open>not x\<close> and the short-circuit \<open>a or b\<close>, on expressions that may raise.\<close>

definition py_not :: "json result \<Rightarrow> bool result" where
  "py_not r = and_then r (\<lambda>v. Inr (\<not> truthy v))"

definition py_or :: "bool result \<Rightarrow> bool result \<Rightarrow> bool result" where
  "py_or a b = and_then a (\<lambda>x. if x then Inr True else b)"

definition add_product :: "driver \<Rightarrow> store \<Rightarrow> json \<Rightarrow> (response \<times> store) result" where
  "add_product drv st data =
     and_then
       (py_or (py_not (py_get data ''barcode'' JNull))
         (py_or (py_not (py_get data ''name'' JNull))
           (py_not (py_get data ''price'' JNull))))
       (\<lambda>missing.
          if missing then Inr (jsonify (error_body ''Missing required fields'') 400, st)
          else
            and_then (py_getitem data ''barcode'') (\<lambda>b.
            and_then (py_getitem data ''name'') (\<lambda>n.
            and_then (py_getitem data ''price'') (\<lambda>p.
            and_then (add_commit drv st b n p) (\<lambda>(row, st').
              Inr (jsonify (to_dict row) 201, st'))))))"

definition add_product_protected ::
    "driver \<Rightarrow> store \<Rightarrow> jwt option \<Rightarrow> json \<Rightarrow> (response \<times> store) result" where
  "add_product_protected drv st token data =
     and_then (jwt_required token) (\<lambda>current_user.
     and_then (py_getitem current_user ''username'') (\<lambda>username.
       if username \<noteq> JStr ''admin'' then Inr (jsonify (error_body ''Unauthorized'') 403, st)
       else
         and_then (py_getitem data ''barcode'') (\<lambda>b.
         and_then (py_getitem data ''name'') (\<lambda>n.
         and_then (py_getitem data ''price'') (\<lambda>p.
         and_then (add_commit drv st b n p) (\<lambda>(row, st').
           Inr (jsonify (to_dict row) 201, st')))))))"

definition get_product :: "store \<Rightarrow> int \<Rightarrow> (response \<times> store) result" where
  "get_product st i =
     and_then (get_or_404 st i) (\<lambda>product. Inr (jsonify (to_dict product) 200, st))"

definition update_product :: "driver \<Rightarrow> store \<Rightarrow> int \<Rightarrow> json \<Rightarrow> (response \<times> store) result" where
  "update_product drv st i data =
     and_then (get_or_404 st i) (\<lambda>product.
     and_then (py_get data ''name'' (JStr (name product))) (\<lambda>n.
     and_then (py_get data ''price'' (JFloat (price product))) (\<lambda>p.
     and_then (update_commit drv st product n p) (\<lambda>(row, st').
       Inr (jsonify (to_dict row) 200, st')))))"

definition delete_product :: "store \<Rightarrow> int \<Rightarrow> (response \<times> store) result" where
  "delete_product st i =
     and_then (get_or_404 st i) (\<lambda>product.
       Inr (jsonify (JObj [(''message'', JStr ''Product deleted'')]) 200,
            filter (\<lambda>r. ident r \<noteq> ident product) st))"

definition search_products :: "store \<Rightarrow> string option \<Rightarrow> (response \<times> store) result" where
  "search_products st query =
     (let products = filter (\<lambda>r. contains (name r) query \<or> contains (barcode r) query) st
      in Inr (jsonify (JArr (map to_dict products)) 200, st))"

definition get_products :: "store \<Rightarrow> args \<Rightarrow> (response \<times> store) result" where
  "get_products st a =
     and_then (paginate st (args_get a ''page'' 1) (args_get a ''per_page'' 10)) (\<lambda>products.
       Inr (jsonify
              (JObj [(''products'', JArr (map to_dict (items products))),
                     (''total'', JInt (total products)),
                     (''pages'', JInt (pages products)),
                     (''current_page'', JInt (page products))]) 200,
            st))"

text \<open>
  The sell view reads \<open>product.stock\<close>. Had the read succeeded, \<open>product.stock -= quantity\<close>
  would set an attribute that is no column: the commit writes nothing and
  \<open>to_dict\<close> does not show it.
\<close>

definition sell_product :: "store \<Rightarrow> int \<Rightarrow> json \<Rightarrow> (response \<times> store) result" where
  "sell_product st i data =
     and_then (get_or_404 st i) (\<lambda>product.
     and_then (py_get data ''quantity'' (JInt 1)) (\<lambda>quantity.
     and_then (product_getattr product ''stock'') (\<lambda>stock.
     and_then (py_lt stock quantity) (\<lambda>short.
       if short then Inr (jsonify (error_body ''Not enough stock'') 400, st)
       else
         and_then (py_sub stock quantity) (\<lambda>stock'.
           Inr (jsonify (to_dict product) 200, st))))))"

definition login :: "store \<Rightarrow> json \<Rightarrow> (response \<times> store) result" where
  "login st data =
     and_then (py_get data ''username'' JNull) (\<lambda>username.
     and_then (py_get data ''password'' JNull) (\<lambda>password.
       if username = JStr ''admin'' \<and> password = JStr ''password''
       then Inr (\<lparr>status = 200,
                   body = Access_token (create_access_token (JObj [(''username'', username)]))\<rparr>,
                 st)
       else Inr (jsonify (error_body ''Invalid credentials'') 401, st)))"

subsection \<open>Routing\<close>

datatype request =
    POST_products json
  | POST_products_protected "jwt option" json
  | GET_product int
  | PUT_product int json
  | DELETE_product int
  | GET_search "string option"
  | GET_products args
  | POST_sell int json
  | POST_login json

fun dispatch_request :: "driver \<Rightarrow> store \<Rightarrow> request \<Rightarrow> (response \<times> store) result" where
  "dispatch_request drv st (POST_products data) = add_product drv st data"
| "dispatch_request drv st (POST_products_protected token data) =
     add_product_protected drv st token data"
| "dispatch_request drv st (GET_product i) = get_product st i"
| "dispatch_request drv st (PUT_product i data) = update_product drv st i data"
| "dispatch_request drv st (DELETE_product i) = delete_product st i"
| "dispatch_request drv st (GET_search query) = search_products st query"
| "dispatch_request drv st (GET_products a) = get_products st a"
| "dispatch_request drv st (POST_sell i data) = sell_product st i data"
| "dispatch_request drv st (POST_login data) = login st data"

text \<open>A request answered: the view's response, or the error handler's with the store untouched.\<close>

definition full_dispatch_request :: "driver \<Rightarrow> store \<Rightarrow> request \<Rightarrow> response \<times> store" where
  "full_dispatch_request drv st req =
     (case dispatch_request drv st req of
        Inl e \<Rightarrow> (handle_user_exception e, st)
      | Inr rs \<Rightarrow> rs)"

text \<open>The store after a sequence of requests, from the empty table that \<open>db.create_all()\<close> makes.\<close>

fun run :: "driver \<Rightarrow> store \<Rightarrow> request list \<Rightarrow> store" where
  "run drv st [] = st"
| "run drv st (req # reqs) = run drv (snd (full_dispatch_request drv st req)) reqs"

text \<open>A driver that converts nothing, for the examples.\<close>

definition strict :: driver where
  "strict = \<lparr>as_text = (\<lambda>v. None), as_real = (\<lambda>v. None)\<rparr>"

subsection \<open>Example data\<close>

definition pen :: product where
  "pen = \<lparr>ident = 1, barcode = ''123'', name = ''pen'', price = 3 / 2\<rparr>"

definition ink :: product where
  "ink = \<lparr>ident = 2, barcode = ''456'', name = ''Ink'', price = 2\<rparr>"

definition cap :: product where
  "cap = \<lparr>ident = 3, barcode = ''789'', name = ''cap'', price = 1\<rparr>"

definition admin_token :: jwt where
  "admin_token = create_access_token (JObj [(''username'', JStr ''admin'')])"

section \<open>Properties\<close>

subsection \<open>Sequencing\<close>

lemma and_then_Inr_iff:
  "and_then r f = Inr y \<longleftrightarrow> (\<exists>x. r = Inr x \<and> f x = Inr y)"
  by (cases r) (simp_all add: and_then_def)

lemma and_then_Inr [simp]: "and_then (Inr x) f = f x"
  by (simp add: and_then_def)

lemma and_then_Inl [simp]: "and_then (Inl e) f = Inl e"
  by (simp add: and_then_def)

subsection \<open>Looking a product up\<close>

lemma get_or_404_Inr_iff:
  "get_or_404 st i = Inr p \<longleftrightarrow> int64 i \<and> find (\<lambda>r. ident r = i) st = Some p"
  by (simp add: get_or_404_def sqlite_int_def split: option.splits)

lemma get_or_404_found:
  assumes "i \<in> set (map ident st)" and "int64 i"
  obtains r where "get_or_404 st i = Inr r" and "ident r = i" and "r \<in> set st"
proof -
  from assms(1) have "find (\<lambda>r. ident r = i) st \<noteq> None"
    by (auto simp: find_None_iff)
  then obtain r where r: "find (\<lambda>r. ident r = i) st = Some r" by blast
  then have "ident r = i" and "r \<in> set st"
    by (auto simp: find_Some_iff)
  with r assms(2) that show thesis by (simp add: get_or_404_Inr_iff)
qed

lemma py_get_cases: "py_get data k d = Inl AttributeError \<or> (\<exists>v. py_get data k d = Inr v)"
  by (cases data) simp_all

subsection \<open>Selling\<close>

lemma sell_product_raises:
  assumes "i \<in> set (map ident st)" and "int64 i"
  shows "sell_product st i data = Inl AttributeError"
proof -
  from assms obtain r where r: "get_or_404 st i = Inr r"
    by (rule get_or_404_found)
  have stock: "product_getattr r ''stock'' = Inl AttributeError"
    by (simp add: product_getattr_def)
  from py_get_cases [of data "''quantity''" "JInt 1"] show ?thesis
    by (auto simp: sell_product_def and_then_def r stock)
qed

text \<open>
  C3: a product has the columns id, barcode, name and price and no stock: reading
  \<open>stock\<close> of any product raises AttributeError, and the serialised product has no
  \<open>stock\<close> key. So for every id of a stored product (an id is a 64-bit integer) and
  every request body the sell
  view raises AttributeError, the generic handler answers 500 with
  \<open>{"error": "An error occurred"}\<close> (never 200 and never the 400 of insufficient
  stock), and the store is unchanged.
\<close>

theorem sell_existing_product_is_500:
  assumes "i \<in> set (map ident st)" and "int64 i"
  shows "product_getattr p ''stock'' = Inl AttributeError
    \<and> py_getitem (to_dict p) ''stock'' = Inl KeyError
    \<and> dispatch_request drv st (POST_sell i data) = Inl AttributeError
    \<and> full_dispatch_request drv st (POST_sell i data)
        = (jsonify (error_body ''An error occurred'') 500, st)"
  using sell_product_raises [OF assms, of data]
  by (simp add: product_getattr_def to_dict_def full_dispatch_request_def handle_exception_def)

theorem sell_existing_product_is_500_witness:
  "1 \<in> set (map ident [pen]) \<and> int64 1
    \<and> product_getattr pen ''stock'' = Inl AttributeError
    \<and> full_dispatch_request strict [pen] (POST_sell 1 (JObj [(''quantity'', JInt 1)]))
        = (\<lparr>status = 500, body = Json (JObj [(''error'', JStr ''An error occurred'')])\<rparr>, [pen])"
proof -
  have h: "1 \<in> set (map ident [pen])" "int64 1"
    by (simp_all add: pen_def int64_def)
  show ?thesis
    using h sell_existing_product_is_500 [OF h, of pen strict "JObj [(''quantity'', JInt 1)]"]
    by (simp add: jsonify_def error_body_def)
qed

text \<open>
  C1: selling within the stock should answer 200 with the product and store the stock
  reduced by the quantity. The view does not get that far: for the stored product 1 and
  the quantity 0 (no more than any stock) it answers the generic 500, and the store
  is as before.
\<close>

theorem sell_quantity_within_stock_fails:
  "full_dispatch_request strict [pen] (POST_sell 1 (JObj [(''quantity'', JInt 0)]))
    = (\<lparr>status = 500, body = Json (JObj [(''error'', JStr ''An error occurred'')])\<rparr>, [pen])"
  by (simp add: full_dispatch_request_def sell_product_raises pen_def int64_def
      handle_exception_def jsonify_def error_body_def)

text \<open>
  C2: selling more than the stock should answer 400 with the insufficient-stock error
  and leave the product as it is. The product is left as it is, but the answer for the
  stored product 1 and the quantity 5 is the generic 500, not the 400.
\<close>

theorem sell_quantity_above_stock_fails:
  "full_dispatch_request strict [pen] (POST_sell 1 (JObj [(''quantity'', JInt 5)]))
    = (\<lparr>status = 500, body = Json (JObj [(''error'', JStr ''An error occurred'')])\<rparr>, [pen])"
  by (simp add: full_dispatch_request_def sell_product_raises pen_def int64_def
      handle_exception_def jsonify_def error_body_def)

subsection \<open>Login\<close>

text \<open>A body that is no JSON object has no \<open>get\<close>: the login view raises and the answer is 500.\<close>

lemma login_not_a_dict:
  "\<forall>kvs. data \<noteq> JObj kvs \<Longrightarrow>
     full_dispatch_request drv st (POST_login data)
       = (jsonify (error_body ''An error occurred'') 500, st)"
  by (cases data) (simp_all add: full_dispatch_request_def login_def and_then_def handle_exception_def)

text \<open>
  C8: for a body with the fields username and password (each possibly absent), login
  answers 200 with an access token exactly when username is the string \<open>admin\<close> and
  password is the string \<open>password\<close>, and 401 with \<open>{"error": "Invalid credentials"}\<close>
  for every other pair. The token is signed with the application's key and embeds
  \<open>{"username": "admin"}\<close>: verifying it gives that identity back.
\<close>

theorem login_admin_password_only:
  "full_dispatch_request drv st (POST_login (JObj kvs)) =
     (if map_of kvs ''username'' = Some (JStr ''admin'')
         \<and> map_of kvs ''password'' = Some (JStr ''password'')
      then (\<lparr>status = 200,
              body = Access_token (create_access_token (JObj [(''username'', JStr ''admin'')]))\<rparr>, st)
      else (jsonify (error_body ''Invalid credentials'') 401, st))
   \<and> jwt_required (Some (create_access_token (JObj [(''username'', JStr ''admin'')])))
       = Inr (JObj [(''username'', JStr ''admin'')])"
  by (auto simp: full_dispatch_request_def login_def and_then_def create_access_token_def
      split: option.splits)

theorem login_admin_password_only_witness:
  "full_dispatch_request strict [pen]
      (POST_login (JObj [(''username'', JStr ''admin''), (''password'', JStr ''password'')]))
     = (\<lparr>status = 200, body = Access_token admin_token\<rparr>, [pen])
   \<and> full_dispatch_request strict [pen]
      (POST_login (JObj [(''username'', JStr ''admin''), (''password'', JStr ''Password'')]))
     = (\<lparr>status = 401, body = Json (JObj [(''error'', JStr ''Invalid credentials'')])\<rparr>, [pen])
   \<and> full_dispatch_request strict [pen] (POST_login (JObj [(''username'', JStr ''admin'')]))
     = (\<lparr>status = 401, body = Json (JObj [(''error'', JStr ''Invalid credentials'')])\<rparr>, [pen])"
  using login_admin_password_only
      [of strict "[pen]" "[(''username'', JStr ''admin''), (''password'', JStr ''password'')]"]
    login_admin_password_only
      [of strict "[pen]" "[(''username'', JStr ''admin''), (''password'', JStr ''Password'')]"]
    login_admin_password_only [of strict "[pen]" "[(''username'', JStr ''admin'')]"]
  by (simp add: admin_token_def jsonify_def error_body_def)

subsection \<open>Creating a product\<close>

lemma construct_missing_key:
  assumes "map_of kvs ''barcode'' = None \<or> map_of kvs ''name'' = None \<or> map_of kvs ''price'' = None"
  shows "and_then (py_getitem (JObj kvs) ''barcode'') (\<lambda>b.
         and_then (py_getitem (JObj kvs) ''name'') (\<lambda>n.
         and_then (py_getitem (JObj kvs) ''price'') (\<lambda>p. f b n p))) = Inl KeyError"
  using assms by (auto simp: and_then_def split: option.splits)

lemma add_product_missing_key:
  assumes "map_of kvs ''barcode'' = None \<or> map_of kvs ''name'' = None \<or> map_of kvs ''price'' = None"
  shows "add_product drv st (JObj kvs)
     = Inr (jsonify (error_body ''Missing required fields'') 400, st)"
  using assms
  by (auto simp: add_product_def py_or_def py_not_def and_then_def split: option.splits)

text \<open>
  C10: the protected create checks no field. For every request with a token that
  verifies and whose identity has the username \<open>admin\<close>, and a body that omits barcode,
  name or price, building the product raises KeyError, the answer is the generic 500
  and the store is unchanged, where the unprotected create answers the 400 of a
  missing field for the same body.
\<close>

theorem protected_create_missing_key_is_500:
  assumes "map_of kvs ''barcode'' = None \<or> map_of kvs ''name'' = None \<or> map_of kvs ''price'' = None"
    and "py_getitem who ''username'' = Inr (JStr ''admin'')"
  shows "dispatch_request drv st (POST_products_protected (Some (create_access_token who)) (JObj kvs))
       = Inl KeyError
    \<and> full_dispatch_request drv st
         (POST_products_protected (Some (create_access_token who)) (JObj kvs))
       = (jsonify (error_body ''An error occurred'') 500, st)
    \<and> full_dispatch_request drv st (POST_products (JObj kvs))
       = (jsonify (error_body ''Missing required fields'') 400, st)"
proof -
  have "add_product_protected drv st (Some (create_access_token who)) (JObj kvs) = Inl KeyError"
    by (simp add: add_product_protected_def create_access_token_def assms(2)
        and_then_def [of "Inr _"] construct_missing_key [OF assms(1)] del: py_getitem.simps)
  then show ?thesis
    by (simp add: full_dispatch_request_def handle_exception_def add_product_missing_key [OF assms(1)])
qed

theorem protected_create_missing_key_is_500_witness:
  "map_of [(''barcode'', JStr ''124''), (''name'', JStr ''nib'')] ''price'' = None
   \<and> full_dispatch_request strict [pen]
        (POST_products_protected (Some admin_token) (JObj [(''barcode'', JStr ''124''), (''name'', JStr ''nib'')]))
      = (\<lparr>status = 500, body = Json (JObj [(''error'', JStr ''An error occurred'')])\<rparr>, [pen])
   \<and> full_dispatch_request strict [pen]
        (POST_products (JObj [(''barcode'', JStr ''124''), (''name'', JStr ''nib'')]))
      = (\<lparr>status = 400, body = Json (JObj [(''error'', JStr ''Missing required fields'')])\<rparr>, [pen])"
proof -
  have h: "map_of [(''barcode'', JStr ''124''), (''name'', JStr ''nib'')] ''barcode'' = None
      \<or> map_of [(''barcode'', JStr ''124''), (''name'', JStr ''nib'')] ''name'' = None
      \<or> map_of [(''barcode'', JStr ''124''), (''name'', JStr ''nib'')] ''price'' = None"
    by simp
  have u: "py_getitem (JObj [(''username'', JStr ''admin'')]) ''username'' = Inr (JStr ''admin'')"
    by simp
  show ?thesis
    using protected_create_missing_key_is_500 [OF h u, of strict "[pen]"]
    by (simp add: admin_token_def jsonify_def error_body_def)
qed

text \<open>Facts about the INSERT.\<close>

lemma not_null_Inr_iff: "not_null v = Inr x \<longleftrightarrow> v = Some x"
  by (cases v) simp_all

lemma add_commit_Inr:
  assumes "add_commit drv st b n p = Inr (row, st')"
  shows "st' = st @ [row] \<and> barcode row \<notin> set (map barcode st) \<and> ident row = next_id st"
  using assms
  by (auto simp: add_commit_def and_then_Inr_iff not_null_Inr_iff Let_def split: if_splits)


lemma add_commit_duplicate:
  assumes "bc \<in> set (map barcode st)"
  shows "\<exists>e. add_commit drv st (JStr bc) n p = Inl e \<and> handle_user_exception e = handle_exception e"
proof (cases "add_commit drv st (JStr bc) n p")
  case (Inl e)
  then have "e = StatementError \<or> e = IntegrityError"
    by (auto simp: add_commit_def and_then_def Let_def split: sum.splits option.splits if_splits
        elim!: bind_String.elims bind_Float.elims not_null.elims)
  with Inl show ?thesis by auto
next
  case (Inr rs)
  with assms add_commit_Inr [of drv st "JStr bc" n p "fst rs" "snd rs"] show ?thesis
    by (auto simp: add_commit_def and_then_Inr_iff not_null_Inr_iff Let_def split: if_splits)
qed


lemma missing_fields_check:
  "py_or (py_not (py_get (JObj kvs) ''barcode'' JNull))
     (py_or (py_not (py_get (JObj kvs) ''name'' JNull))
       (py_not (py_get (JObj kvs) ''price'' JNull)))
   = Inr (\<not> (truthy (case map_of kvs ''barcode'' of None \<Rightarrow> JNull | Some v \<Rightarrow> v)
         \<and> truthy (case map_of kvs ''name'' of None \<Rightarrow> JNull | Some v \<Rightarrow> v)
         \<and> truthy (case map_of kvs ''price'' of None \<Rightarrow> JNull | Some v \<Rightarrow> v)))"
  by (simp add: py_or_def py_not_def)

lemma truthy_present:
  "truthy (case map_of kvs k of None \<Rightarrow> JNull | Some v \<Rightarrow> v) \<Longrightarrow>
     py_getitem (JObj kvs) k = Inr (case map_of kvs k of None \<Rightarrow> JNull | Some v \<Rightarrow> v)"
  by (simp split: option.splits)

lemma add_product_dict:
  "add_product drv st (JObj kvs) =
     (let b = (case map_of kvs ''barcode'' of None \<Rightarrow> JNull | Some v \<Rightarrow> v);
          n = (case map_of kvs ''name'' of None \<Rightarrow> JNull | Some v \<Rightarrow> v);
          p = (case map_of kvs ''price'' of None \<Rightarrow> JNull | Some v \<Rightarrow> v)
      in if truthy b \<and> truthy n \<and> truthy p
         then and_then (add_commit drv st b n p) (\<lambda>(row, st'). Inr (jsonify (to_dict row) 201, st'))
         else Inr (jsonify (error_body ''Missing required fields'') 400, st))"
  by (simp add: add_product_def missing_fields_check truthy_present Let_def del: py_get.simps py_getitem.simps)




subsection \<open>What a request does to the table\<close>

lemma update_commit_Inr:
  assumes "update_commit drv st product n p = Inr (row, st')"
  shows "\<exists>nm pr. row = product\<lparr>name := nm, price := pr\<rparr>
      \<and> st' = map (\<lambda>r. if ident r = ident product then r\<lparr>name := nm, price := pr\<rparr> else r) st
      \<and> bind_String drv n = Inr (Some nm) \<and> bind_Float drv p = Inr (Some pr)"
  using assms
  by (auto simp: update_commit_def and_then_Inr_iff not_null_Inr_iff)

lemma update_commit_columns:
  assumes "update_commit drv st product n p = Inr (row, st')"
  shows "map ident st' = map ident st" and "map barcode st' = map barcode st"
  using update_commit_Inr [OF assms] by (auto simp: comp_def)

lemma add_product_store:
  assumes "add_product drv st data = Inr (r, st')"
  shows "st' = st \<or> (\<exists>row. st' = st @ [row] \<and> barcode row \<notin> set (map barcode st))"
  using assms unfolding add_product_def
  by (auto simp: and_then_Inr_iff split: if_splits dest!: add_commit_Inr)

lemma add_product_protected_store:
  assumes "add_product_protected drv st token data = Inr (r, st')"
  shows "st' = st \<or> (\<exists>row. st' = st @ [row] \<and> barcode row \<notin> set (map barcode st))"
  using assms unfolding add_product_protected_def
  by (auto simp: and_then_Inr_iff split: if_splits dest!: add_commit_Inr)

lemma update_product_store:
  assumes "update_product drv st i data = Inr (r, st')"
  shows "map ident st' = map ident st \<and> map barcode st' = map barcode st"
  using assms unfolding update_product_def
  by (auto simp: and_then_Inr_iff dest: update_commit_columns)

lemma delete_product_store:
  assumes "delete_product st i = Inr (r, st')"
  shows "\<exists>P. st' = filter P st"
  using assms unfolding delete_product_def
  by (auto simp: and_then_Inr_iff)

lemma readonly_views_store:
  "get_product st i = Inr (r, st') \<Longrightarrow> st' = st"
  "search_products st query = Inr (r, st') \<Longrightarrow> st' = st"
  "get_products st a = Inr (r, st') \<Longrightarrow> st' = st"
  "sell_product st i data = Inr (r, st') \<Longrightarrow> st' = st"
  "login st data = Inr (r, st') \<Longrightarrow> st' = st"
  by (auto simp: get_product_def search_products_def get_products_def sell_product_def login_def
      and_then_Inr_iff Let_def split: if_splits)

lemma request_keeps_barcodes_distinct:
  assumes "distinct (map barcode st)"
  shows "distinct (map barcode (snd (full_dispatch_request drv st req)))"
proof (cases "dispatch_request drv st req")
  case (Inl e)
  with assms show ?thesis by (simp add: full_dispatch_request_def)
next
  case (Inr rs)
  obtain r st' where rs: "rs = (r, st')" by (cases rs)
  have "distinct (map barcode st')"
  proof (cases req)
    case (POST_products data)
    with Inr rs add_product_store [of drv st data r st'] assms show ?thesis by auto
  next
    case (POST_products_protected token data)
    with Inr rs add_product_protected_store [of drv st token data r st'] assms show ?thesis by auto
  next
    case (PUT_product i data)
    with Inr rs update_product_store [of drv st i data r st'] assms show ?thesis by auto
  next
    case (DELETE_product i)
    with Inr rs delete_product_store [of st i r st'] assms show ?thesis
      by (auto simp: distinct_map_filter)
  qed (use Inr rs assms in \<open>auto dest: readonly_views_store\<close>)
  with Inr rs show ?thesis by (simp add: full_dispatch_request_def)
qed

lemma run_keeps_barcodes_distinct:
  "distinct (map barcode st) \<Longrightarrow> distinct (map barcode (run drv st reqs))"
  by (induction reqs arbitrary: st) (simp_all add: request_keeps_barcodes_distinct)

lemma add_commit_duplicate_fails:
  assumes "bc \<in> set (map barcode st)"
  shows "add_commit drv st (JStr bc) n p \<noteq> Inr rs"
  using add_commit_duplicate [OF assms, of drv n p] by auto

lemma add_product_protected_duplicate:
  assumes "map_of kvs ''barcode'' = Some (JStr bc)" and "bc \<in> set (map barcode st)"
    and "add_product_protected drv st token (JObj kvs) = Inr (r, st')"
  shows "status r = 403 \<and> st' = st"
  using assms(1,3) add_commit_duplicate_fails [OF assms(2), of drv]
  unfolding add_product_protected_def
  by (auto simp: and_then_Inr_iff jsonify_def split: if_splits option.splits)

text \<open>
  C5: in every store that a sequence of requests reaches from the empty table no two
  rows share a barcode; and a create (unprotected or protected, whatever the token)
  whose barcode is the string of a stored product does not answer 201 and leaves the
  store as it is: the duplicate is not persisted.
\<close>

theorem barcodes_unique:
  assumes "st = run drv [] reqs"
    and "map_of kvs ''barcode'' = Some (JStr bc)" and "bc \<in> set (map barcode st)"
  shows "distinct (map barcode st)
    \<and> status (fst (full_dispatch_request drv st (POST_products (JObj kvs)))) \<noteq> 201
    \<and> snd (full_dispatch_request drv st (POST_products (JObj kvs))) = st
    \<and> status (fst (full_dispatch_request drv st (POST_products_protected token (JObj kvs)))) \<noteq> 201
    \<and> snd (full_dispatch_request drv st (POST_products_protected token (JObj kvs))) = st"
proof -
  have inv: "distinct (map barcode st)"
    unfolding assms(1) by (rule run_keeps_barcodes_distinct) simp
  have b: "py_get (JObj kvs) ''barcode'' JNull = Inr (JStr bc)"
    using assms(2) by simp
  obtain e where e: "add_commit drv st (JStr bc)
        (case map_of kvs ''name'' of None \<Rightarrow> JNull | Some v \<Rightarrow> v)
        (case map_of kvs ''price'' of None \<Rightarrow> JNull | Some v \<Rightarrow> v) = Inl e"
      "handle_user_exception e = handle_exception e"
    using add_commit_duplicate [OF assms(3)] by blast
  have plain: "full_dispatch_request drv st (POST_products (JObj kvs))
      = (jsonify (error_body ''Missing required fields'') 400, st)
    \<or> full_dispatch_request drv st (POST_products (JObj kvs))
      = (jsonify (error_body ''An error occurred'') 500, st)"
    using e assms(2)
    by (auto simp: full_dispatch_request_def add_product_dict handle_exception_def Let_def)
  have prot: "status (fst (full_dispatch_request drv st (POST_products_protected token (JObj kvs)))) \<noteq> 201
    \<and> snd (full_dispatch_request drv st (POST_products_protected token (JObj kvs))) = st"
  proof (cases "add_product_protected drv st token (JObj kvs)")
    case (Inl e')
    then show ?thesis
      by (cases e') (simp_all add: full_dispatch_request_def handle_exception_def jsonify_def not_found_def)
  next
    case (Inr rs)
    with add_product_protected_duplicate [OF assms(2,3), of drv token "fst rs" "snd rs"]
    show ?thesis by (simp add: full_dispatch_request_def)
  qed
  from inv plain prot show ?thesis
    by (auto simp: jsonify_def)
qed


theorem barcodes_unique_witness:
  "[pen] = run strict []
      [POST_products (JObj [(''barcode'', JStr ''123''), (''name'', JStr ''pen''), (''price'', JFloat (3 / 2))])]
   \<and> map_of [(''barcode'', JStr ''123''), (''name'', JStr ''ink''), (''price'', JFloat 2)] ''barcode''
       = Some (JStr ''123'')
   \<and> ''123'' \<in> set (map barcode [pen])
   \<and> distinct (map barcode [pen])
   \<and> full_dispatch_request strict [pen]
        (POST_products (JObj [(''barcode'', JStr ''123''), (''name'', JStr ''ink''), (''price'', JFloat 2)]))
      = (\<lparr>status = 500, body = Json (JObj [(''error'', JStr ''An error occurred'')])\<rparr>, [pen])
   \<and> full_dispatch_request strict [pen]
        (POST_products_protected (Some admin_token)
          (JObj [(''barcode'', JStr ''123''), (''name'', JStr ''ink''), (''price'', JFloat 2)]))
      = (\<lparr>status = 500, body = Json (JObj [(''error'', JStr ''An error occurred'')])\<rparr>, [pen])"
proof -
  let ?dup = "[(''barcode'', JStr ''123''), (''name'', JStr ''ink''), (''price'', JFloat 2)]"
  have h1: "[pen] = run strict []
      [POST_products (JObj [(''barcode'', JStr ''123''), (''name'', JStr ''pen''), (''price'', JFloat (3 / 2))])]"
    by (simp add: full_dispatch_request_def add_product_dict add_commit_def next_id_def pen_def
        strict_def Let_def)
  have h2: "map_of ?dup ''barcode'' = Some (JStr ''123'')"
    by simp
  have h3: "''123'' \<in> set (map barcode [pen])"
    by (simp add: pen_def)
  have r1: "full_dispatch_request strict [pen] (POST_products (JObj ?dup))
      = (\<lparr>status = 500, body = Json (JObj [(''error'', JStr ''An error occurred'')])\<rparr>, [pen])"
    by (simp add: full_dispatch_request_def add_product_dict add_commit_def pen_def strict_def
        handle_exception_def jsonify_def error_body_def)
  have r2: "full_dispatch_request strict [pen] (POST_products_protected (Some admin_token) (JObj ?dup))
      = (\<lparr>status = 500, body = Json (JObj [(''error'', JStr ''An error occurred'')])\<rparr>, [pen])"
    by (simp add: full_dispatch_request_def add_product_protected_def add_commit_def pen_def strict_def
        admin_token_def create_access_token_def handle_exception_def jsonify_def error_body_def)
  show ?thesis
    using h1 h2 h3 r1 r2 barcodes_unique [OF h1 h2 h3, of "Some admin_token"]
    by simp
qed

subsection \<open>Updating a product\<close>

lemma find_map_same_ident:
  assumes "\<And>r. ident (f r) = ident r"
  shows "find (\<lambda>r. ident r = i) (map f st) = map_option f (find (\<lambda>r. ident r = i) st)"
  by (induction st) (simp_all add: assms)

lemma py_get_omitted:
  assumes "py_get data k d = Inr v" and "isl (py_getitem data k)"
  shows "v = d"
  using assms by (cases data) (auto split: option.splits)

text \<open>
  C7: for a stored product \<open>p\<close> with id \<open>i\<close> and any request body, after update the id
  \<open>i\<close> still finds a product \<open>p'\<close> with the id and the barcode of \<open>p\<close>; when the body
  has no key name (\<open>data['name']\<close> would raise) the name of \<open>p'\<close> is that of \<open>p\<close>, and
  likewise for price; an answer of 200 carries \<open>p'\<close>; and the ids and barcodes of all
  rows of the table are as before.
\<close>

theorem update_keeps_omitted_fields:
  assumes "get_or_404 st i = Inr p"
  shows "\<exists>p'. get_or_404 (snd (full_dispatch_request drv st (PUT_product i data))) i = Inr p'
      \<and> ident p' = ident p \<and> barcode p' = barcode p
      \<and> (isl (py_getitem data ''name'') \<longrightarrow> name p' = name p)
      \<and> (isl (py_getitem data ''price'') \<longrightarrow> price p' = price p)
      \<and> (status (fst (full_dispatch_request drv st (PUT_product i data))) = 200 \<longrightarrow>
           body (fst (full_dispatch_request drv st (PUT_product i data))) = Json (to_dict p'))
      \<and> map ident (snd (full_dispatch_request drv st (PUT_product i data))) = map ident st
      \<and> map barcode (snd (full_dispatch_request drv st (PUT_product i data))) = map barcode st"
proof (cases "update_product drv st i data")
  case (Inl e)
  then have "full_dispatch_request drv st (PUT_product i data) = (handle_user_exception e, st)"
    by (simp add: full_dispatch_request_def)
  moreover have "status (handle_user_exception e) \<noteq> 200"
    by (cases e) (simp_all add: handle_exception_def not_found_def jsonify_def)
  ultimately show ?thesis using assms by simp
next
  case (Inr rs)
  obtain r st' where rs: "rs = (r, st')" by (cases rs)
  from Inr rs assms obtain n pv row
    where n: "py_get data ''name'' (JStr (name p)) = Inr n"
      and pv: "py_get data ''price'' (JFloat (price p)) = Inr pv"
      and commit: "update_commit drv st p n pv = Inr (row, st')"
      and r: "r = jsonify (to_dict row) 200"
    by (auto simp: update_product_def and_then_Inr_iff)
  from update_commit_Inr [OF commit] obtain nm pr
    where row: "row = p\<lparr>name := nm, price := pr\<rparr>"
      and st': "st' = map (\<lambda>r. if ident r = ident p then r\<lparr>name := nm, price := pr\<rparr> else r) st"
      and nm: "bind_String drv n = Inr (Some nm)"
      and pr: "bind_Float drv pv = Inr (Some pr)"
    by blast
  have "find (\<lambda>r. ident r = i) st' = Some row"
    unfolding st' using assms
    by (subst find_map_same_ident) (auto simp: get_or_404_Inr_iff row find_Some_iff)
  moreover from assms have "int64 i"
    by (simp add: get_or_404_Inr_iff)
  ultimately have found: "get_or_404 st' i = Inr row"
    by (simp add: get_or_404_Inr_iff)
  have name_kept: "name row = name p" if "isl (py_getitem data ''name'')"
    using py_get_omitted [OF n that] nm by (simp add: row)
  have price_kept: "price row = price p" if "isl (py_getitem data ''price'')"
    using py_get_omitted [OF pv that] pr by (simp add: row)
  have res: "full_dispatch_request drv st (PUT_product i data) = (r, st')"
    using Inr rs by (simp add: full_dispatch_request_def)
  show ?thesis
    unfolding res
    using found name_kept price_kept update_commit_columns [OF commit]
    by (intro exI [of _ row]) (simp add: row r jsonify_def)
qed

theorem update_keeps_omitted_fields_witness:
  "get_or_404 [pen, ink, cap] 2 = Inr ink
   \<and> isl (py_getitem (JObj [(''price'', JFloat (25 / 2))]) ''name'')
   \<and> full_dispatch_request strict [pen, ink, cap] (PUT_product 2 (JObj [(''price'', JFloat (25 / 2))]))
      = (\<lparr>status = 200,
          body = Json (JObj [(''id'', JInt 2), (''barcode'', JStr ''456''), (''name'', JStr ''Ink''),
                             (''price'', JFloat (25 / 2))])\<rparr>,
         [pen, ink\<lparr>price := 25 / 2\<rparr>, cap])
   \<and> get_or_404 [pen, ink\<lparr>price := 25 / 2\<rparr>, cap] 2 = Inr (ink\<lparr>price := 25 / 2\<rparr>)
   \<and> name (ink\<lparr>price := 25 / 2\<rparr>) = name ink"
proof -
  have h: "get_or_404 [pen, ink, cap] 2 = Inr ink"
    by (simp add: get_or_404_def sqlite_int_def int64_def pen_def ink_def)
  have r: "full_dispatch_request strict [pen, ink, cap] (PUT_product 2 (JObj [(''price'', JFloat (25 / 2))]))
      = (\<lparr>status = 200,
          body = Json (JObj [(''id'', JInt 2), (''barcode'', JStr ''456''), (''name'', JStr ''Ink''),
                             (''price'', JFloat (25 / 2))])\<rparr>,
         [pen, ink\<lparr>price := 25 / 2\<rparr>, cap])"
    by (simp add: full_dispatch_request_def update_product_def update_commit_def get_or_404_def
        sqlite_int_def int64_def jsonify_def to_dict_def pen_def ink_def cap_def)
  show ?thesis
    using h r update_keeps_omitted_fields [OF h, of strict "JObj [(''price'', JFloat (25 / 2))]"]
    by (simp add: get_or_404_def sqlite_int_def int64_def pen_def ink_def)
qed

subsection \<open>Listing by page\<close>










subsection \<open>Searching\<close>














end
